theory Spec2Isabelle
  imports Main "HOL-Library.Word"
begin

section \<open>JSON values and the JavaScript primitives the client relies on\<close>

text \<open>
  The client (\<^verbatim>\<open>prudent-frontend/lib/api.ts\<close>) works on values produced by
  \<^verbatim>\<open>Response.json()\<close>, that is on parsed JSON. A JSON object is the list of its own
  properties in enumeration order (keys distinct, as \<^verbatim>\<open>JSON.parse\<close> leaves them).
  Strings are lists of code units below 256 (\<^typ>\<open>char\<close> is 8 bits wide). Numbers are
  the safe integers, of magnitude below \<open>2 ^ 53\<close>, which \<^verbatim>\<open>String\<close> and
  \<^verbatim>\<open>JSON.stringify\<close> print as their decimal digits; fractions and larger numbers,
  which JavaScript rounds and prints in other forms, are outside the model. The JavaScript value
  \<^verbatim>\<open>undefined\<close> is not a JSON value: it is \<open>None\<close> in the type \<open>json option\<close>.
\<close>

datatype json =
    JNull
  | JBool bool
  | JNum int
  | JStr string
  | JArr "json list"
  | JObj "(string \<times> json) list"

text \<open>What an operation throws: the two built-in exceptions that can arise, and
  \<^verbatim>\<open>new Error(message)\<close>.\<close>

datatype error = TypeError | SyntaxError | Error string

definition bind :: "error + 'a \<Rightarrow> ('a \<Rightarrow> error + 'b) \<Rightarrow> error + 'b" where
  "bind m f = (case m of Inl e \<Rightarrow> Inl e | Inr a \<Rightarrow> f a)"

subsection \<open>Property access, \<^verbatim>\<open>??\<close>, truthiness\<close>

text \<open>
  \<^verbatim>\<open>x?.k\<close> for the property names the source reads. None of them is inherited from
  the prototype of an object, array, string, number or boolean, so only an own property of
  an object gives a value; everything else gives \<^verbatim>\<open>undefined\<close>.
\<close>

fun getProp :: "json option \<Rightarrow> string \<Rightarrow> json option" where
  "getProp (Some (JObj ps)) k = map_of ps k"
| "getProp _ k = None"

text \<open>\<^verbatim>\<open>a ?? b\<close>: the right operand replaces \<^verbatim>\<open>null\<close> and \<^verbatim>\<open>undefined\<close> only.\<close>

fun coalesce :: "json option \<Rightarrow> json option \<Rightarrow> json option" where
  "coalesce None b = b"
| "coalesce (Some JNull) b = b"
| "coalesce (Some v) b = Some v"

fun truthy :: "json option \<Rightarrow> bool" where
  "truthy None = False"
| "truthy (Some JNull) = False"
| "truthy (Some (JBool b)) = b"
| "truthy (Some (JNum n)) = (n \<noteq> 0)"
| "truthy (Some (JStr s)) = (s \<noteq> [])"
| "truthy (Some (JArr xs)) = True"
| "truthy (Some (JObj ps)) = True"

fun isArray :: "json option \<Rightarrow> bool" where
  "isArray (Some (JArr xs)) = True"
| "isArray _ = False"

subsection \<open>Numbers and strings\<close>

fun show_nat :: "nat \<Rightarrow> string" where
  "show_nat n =
     (if n < 10 then [''0123456789'' ! n]
      else show_nat (n div 10) @ [''0123456789'' ! (n mod 10)])"

declare show_nat.simps [simp del]

definition show_int :: "int \<Rightarrow> string" where
  "show_int i = (if i < 0 then CHR ''-'' # show_nat (nat (- i)) else show_nat (nat i))"

fun join :: "string \<Rightarrow> string list \<Rightarrow> string" where
  "join sep [] = []"
| "join sep [s] = s"
| "join sep (s # t # ss) = s @ sep @ join sep (t # ss)"

text \<open>The code units below 256 that \<^verbatim>\<open>String.prototype.trim\<close> strips: TAB, LF, VT, FF,
  CR, space and the no-break space.\<close>

definition isWhitespace :: "char \<Rightarrow> bool" where
  "isWhitespace c = (of_char c \<in> {9, 10, 11, 12, 13, 32, 160 :: nat})"

definition trim :: "string \<Rightarrow> string" where
  "trim s = rev (dropWhile isWhitespace (rev (dropWhile isWhitespace s)))"

text \<open>A string that \<^verbatim>\<open>trim\<close> has nothing to strip from: no whitespace at its
  start and none at its end.\<close>

definition trimmed :: "string \<Rightarrow> bool" where
  "trimmed s = (dropWhile isWhitespace s = s \<and> dropWhile isWhitespace (rev s) = rev s)"

text \<open>\<^verbatim>\<open>toLowerCase\<close> on code units below 256: A to Z, and the Latin-1 capitals
  0xC0 to 0xDE except the multiplication sign 0xD7, move up by 32.\<close>

definition lowerChar :: "char \<Rightarrow> char" where
  "lowerChar c =
     (let n = (of_char c :: nat)
      in if (65 \<le> n \<and> n \<le> 90) \<or> (192 \<le> n \<and> n \<le> 222 \<and> n \<noteq> 215)
         then char_of (n + 32) else c)"

definition toLowerCase :: "string \<Rightarrow> string" where
  "toLowerCase s = map lowerChar s"

subsection \<open>\<^verbatim>\<open>String(v)\<close>\<close>

text \<open>
  \<^verbatim>\<open>String(v)\<close> is \<^verbatim>\<open>ToString\<close>. On an array it is \<^verbatim>\<open>join(",")\<close>, where a
  \<^verbatim>\<open>null\<close> element gives the empty string. On an object it is
  \<^verbatim>\<open>OrdinaryToPrimitive\<close> with hint string: it calls the object's \<^verbatim>\<open>toString\<close>, then
  its \<^verbatim>\<open>valueOf\<close>, when they are callable. A parsed object inherits
  \<^verbatim>\<open>Object.prototype.toString\<close>, which answers \<^verbatim>\<open>[object Object]\<close>, unless an own
  property named \<^verbatim>\<open>toString\<close> shadows it; an own property of a parsed object is never
  callable, and \<^verbatim>\<open>Object.prototype.valueOf\<close> returns the object itself, so in that case
  no primitive is found and a \<^verbatim>\<open>TypeError\<close> is thrown.
\<close>

fun ToString :: "json \<Rightarrow> error + string"
  and jsElems :: "json list \<Rightarrow> error + string list" where
  "ToString JNull = Inr ''null''"
| "ToString (JBool b) = Inr (if b then ''true'' else ''false'')"
| "ToString (JNum n) = Inr (show_int n)"
| "ToString (JStr s) = Inr s"
| "ToString (JArr xs) = bind (jsElems xs) (\<lambda>ss. Inr (join '','' ss))"
| "ToString (JObj ps) =
     (if ''toString'' \<in> fst ` set ps then Inl TypeError else Inr ''[object Object]'')"
| "jsElems [] = Inr []"
| "jsElems (x # xs) =
     bind (if x = JNull then Inr [] else ToString x)
       (\<lambda>s. bind (jsElems xs) (\<lambda>ss. Inr (s # ss)))"

text \<open>\<^verbatim>\<open>String(x)\<close> where \<^verbatim>\<open>x\<close> may be \<^verbatim>\<open>undefined\<close>.\<close>

fun jsString :: "json option \<Rightarrow> error + string" where
  "jsString None = Inr ''undefined''"
| "jsString (Some v) = ToString v"

text \<open>The values that \<^verbatim>\<open>String\<close> converts: those in which the conversion meets no
  object with an own property \<open>toString\<close>, directly or as an element of an array.\<close>

fun convertible :: "json \<Rightarrow> bool" where
  "convertible (JArr xs) = list_all convertible xs"
| "convertible (JObj ps) = (''toString'' \<notin> fst ` set ps)"
| "convertible v = True"

definition converts :: "json option \<Rightarrow> bool" where
  "converts x = (case x of None \<Rightarrow> True | Some v \<Rightarrow> convertible v)"

subsection \<open>\<^verbatim>\<open>JSON.stringify\<close>\<close>

definition hexDigit :: "nat \<Rightarrow> char" where
  "hexDigit n = ''0123456789abcdef'' ! n"

text \<open>\<^verbatim>\<open>QuoteJSONString\<close>: the quotation mark (0x22) and the backslash (0x5C) are
  escaped, control characters have their short escape or \<^verbatim>\<open>\u00XX\<close>.\<close>

definition escapeChar :: "char \<Rightarrow> string" where
  "escapeChar c =
     (let n = (of_char c :: nat)
      in if n = 34 then [CHR 0x5C, CHR 0x22]
         else if n = 92 then [CHR 0x5C, CHR 0x5C]
         else if n = 8 then [CHR 0x5C, CHR ''b'']
         else if n = 9 then [CHR 0x5C, CHR ''t'']
         else if n = 10 then [CHR 0x5C, CHR ''n'']
         else if n = 12 then [CHR 0x5C, CHR ''f'']
         else if n = 13 then [CHR 0x5C, CHR ''r'']
         else if n < 32 then [CHR 0x5C, CHR ''u'', CHR ''0'', CHR ''0'',
                              hexDigit (n div 16), hexDigit (n mod 16)]
         else [c])"

definition quote :: "string \<Rightarrow> string" where
  "quote s = CHR 0x22 # concat (map escapeChar s) @ [CHR 0x22]"

fun stringify :: "json \<Rightarrow> string"
  and stringifyElems :: "json list \<Rightarrow> string list"
  and stringifyProps :: "(string \<times> json) list \<Rightarrow> string list" where
  "stringify JNull = ''null''"
| "stringify (JBool b) = (if b then ''true'' else ''false'')"
| "stringify (JNum n) = show_int n"
| "stringify (JStr s) = quote s"
| "stringify (JArr xs) = ''['' @ join '','' (stringifyElems xs) @ '']''"
| "stringify (JObj ps) = ''{'' @ join '','' (stringifyProps ps) @ ''}''"
| "stringifyElems [] = []"
| "stringifyElems (x # xs) = stringify x # stringifyElems xs"
| "stringifyProps [] = []"
| "stringifyProps ((k, v) # ps) = (quote k @ '':'' @ stringify v) # stringifyProps ps"

section \<open>The response normalizer\<close>

subsection \<open>\<^verbatim>\<open>hashString\<close>\<close>

text \<open>JavaScript's bitwise operators work on 32-bit two's complement integers:
  \<^verbatim>\<open>ToInt32\<close> wraps a number, \<^verbatim>\<open>h << k\<close> shifts the wrapped number and wraps again.
  The subtraction and the addition in between are exact.\<close>

definition toInt32 :: "int \<Rightarrow> int" where
  "toInt32 x = sint (word_of_int x :: 32 word)"

definition shiftLeft :: "int \<Rightarrow> nat \<Rightarrow> int" where
  "shiftLeft h k = sint (push_bit k (word_of_int h :: 32 word))"

text \<open>The loop body \<^verbatim>\<open>h = (h << 5) - h + input.charCodeAt(i); h |= 0\<close>.\<close>

fun hashLoop :: "int \<Rightarrow> string \<Rightarrow> int" where
  "hashLoop h [] = h"
| "hashLoop h (c # cs) = hashLoop (toInt32 (shiftLeft h 5 - h + int (of_char c))) cs"

definition hashString :: "string \<Rightarrow> int" where
  "hashString input = hashLoop 0 input"

text \<open>The hash as the specification words it: \<open>h := h * 31 + charCode\<close> with 32-bit
  signed wrap-around at each step, from \<open>h = 0\<close>.\<close>

definition wrap32 :: "int \<Rightarrow> int" where
  "wrap32 x = (x + 2 ^ 31) mod 2 ^ 32 - 2 ^ 31"

fun hash_spec_loop :: "int \<Rightarrow> string \<Rightarrow> int" where
  "hash_spec_loop h [] = h"
| "hash_spec_loop h (c # cs) = hash_spec_loop (wrap32 (h * 31 + int (of_char c))) cs"

definition hash_spec :: "string \<Rightarrow> int" where
  "hash_spec input = hash_spec_loop 0 input"

subsection \<open>\<^verbatim>\<open>normalizeSource\<close> and \<^verbatim>\<open>normalizeSources\<close>\<close>

datatype AccessLevel = Public | Internal

text \<open>The two string literals of the TypeScript type \<^verbatim>\<open>"public" | "internal"\<close>.\<close>

fun accessLevelText :: "AccessLevel \<Rightarrow> string" where
  "accessLevelText Public = ''public''"
| "accessLevelText Internal = ''internal''"

text \<open>The interface \<^verbatim>\<open>Source\<close>: its seven named fields, and the index signature
  \<^verbatim>\<open>[key: string]: any\<close> as the list of the other properties.\<close>

record Source =
  src_id :: string
  src_title :: string
  src_section :: string
  src_source :: string
  src_accessLevel :: AccessLevel
  src_snippet :: string
  src_fullText :: string
  src_extra :: "(string \<times> json) list"

text \<open>The own enumerable properties that the spread \<^verbatim>\<open>...s\<close> copies: those of an
  object, the indexed elements of an array, the indexed characters of a string, and
  nothing for \<^verbatim>\<open>null\<close>, a number or a boolean.\<close>

fun spread :: "json \<Rightarrow> (string \<times> json) list" where
  "spread (JObj ps) = ps"
| "spread (JArr xs) = zip (map show_nat [0 ..< length xs]) xs"
| "spread (JStr cs) = zip (map show_nat [0 ..< length cs]) (map (\<lambda>c. JStr [c]) cs)"
| "spread _ = []"

definition normalizedKeys :: "string list" where
  "normalizedKeys =
     [''id'', ''title'', ''section'', ''source'', ''accessLevel'', ''snippet'', ''fullText'']"

text \<open>\<^verbatim>\<open>s ?? {}\<close>, the argument of \<^verbatim>\<open>JSON.stringify\<close>.\<close>

fun orEmptyObject :: "json \<Rightarrow> json" where
  "orEmptyObject JNull = JObj []"
| "orEmptyObject v = v"

text \<open>The template literal \<^verbatim>\<open>`src-${idx}-${Math.abs(hashString(JSON.stringify(s ?? {})))}`\<close>.\<close>

definition syntheticId :: "json \<Rightarrow> nat \<Rightarrow> string" where
  "syntheticId s idx =
     ''src-'' @ show_nat idx @ ''-'' @ show_int \<bar>hashString (stringify (orEmptyObject s))\<bar>"

text \<open>The operands of the seven \<^verbatim>\<open>String(...)\<close> calls: the \<^verbatim>\<open>??\<close> chains of the
  source, left to right. \<^verbatim>\<open>s?.metadata?.k\<close> is \<open>getProp (getProp (Some s) ''metadata'') k\<close>.\<close>

definition metadata :: "json \<Rightarrow> json option" where
  "metadata s = getProp (Some s) ''metadata''"

definition rawId :: "json \<Rightarrow> json option" where
  "rawId s = coalesce (getProp (Some s) ''id'') (Some (JStr []))"

definition rawTitle :: "json \<Rightarrow> json option" where
  "rawTitle s =
     coalesce (getProp (Some s) ''title'')
       (coalesce (getProp (metadata s) ''title'') (Some (JStr ''Source'')))"

definition rawSection :: "json \<Rightarrow> json option" where
  "rawSection s =
     coalesce (getProp (Some s) ''section'')
       (coalesce (getProp (metadata s) ''section'')
         (coalesce (getProp (metadata s) ''heading'') (Some (JStr []))))"

definition rawSource :: "json \<Rightarrow> json option" where
  "rawSource s =
     coalesce (getProp (Some s) ''source'')
       (coalesce (getProp (Some s) ''url'')
         (coalesce (getProp (metadata s) ''source'')
           (coalesce (getProp (metadata s) ''path'') (Some (JStr [])))))"

definition rawAccessLevel :: "json \<Rightarrow> json option" where
  "rawAccessLevel s =
     coalesce (getProp (Some s) ''accessLevel'')
       (coalesce (getProp (Some s) ''access_level'')
         (coalesce (getProp (metadata s) ''accessLevel'')
           (coalesce (getProp (metadata s) ''access_level'') (Some (JStr ''internal'')))))"

definition rawSnippet :: "json \<Rightarrow> json option" where
  "rawSnippet s =
     coalesce (getProp (Some s) ''snippet'')
       (coalesce (getProp (metadata s) ''snippet'')
         (coalesce (getProp (metadata s) ''text'') (Some (JStr []))))"

definition rawFullText :: "json \<Rightarrow> string \<Rightarrow> json option" where
  "rawFullText s snippet =
     coalesce (getProp (Some s) ''fullText'')
       (coalesce (getProp (Some s) ''full_text'')
         (coalesce (getProp (metadata s) ''fullText'')
           (coalesce (getProp (metadata s) ''text'') (Some (JStr snippet)))))"

text \<open>Resolution in order, as the specification words it: the first candidate that is
  present and not null, and the default when there is none. It is stated apart from the
  chains above, which are the source's, to be compared with them.\<close>

fun firstPresent :: "json option list \<Rightarrow> json \<Rightarrow> json" where
  "firstPresent [] d = d"
| "firstPresent (None # xs) d = firstPresent xs d"
| "firstPresent (Some JNull # xs) d = firstPresent xs d"
| "firstPresent (Some v # xs) d = v"

definition normalizeSource :: "json \<Rightarrow> nat \<Rightarrow> error + Source" where
  "normalizeSource s idx =
     bind (jsString (rawId s)) (\<lambda>idStr.
     let id = (if trim idStr \<noteq> [] then trim idStr else syntheticId s idx) in
     bind (jsString (rawTitle s)) (\<lambda>titleStr.
     let title = trim titleStr in
     bind (jsString (rawSection s)) (\<lambda>sectionStr.
     let section = trim sectionStr in
     bind (jsString (rawSource s)) (\<lambda>sourceStr.
     let source = trim sourceStr in
     bind (jsString (rawAccessLevel s)) (\<lambda>alStr.
     let alRaw = toLowerCase alStr;
         accessLevel = (if alRaw = ''public'' then Public else Internal) in
     bind (jsString (rawSnippet s)) (\<lambda>snippetStr.
     let snippet = trim snippetStr in
     bind (jsString (rawFullText s snippet)) (\<lambda>fullTextStr.
     let fullText = trim fullTextStr in
     Inr \<lparr> src_id = id, src_title = title, src_section = section, src_source = source,
           src_accessLevel = accessLevel, src_snippet = snippet, src_fullText = fullText,
           src_extra = filter (\<lambda>(k, v). k \<notin> set normalizedKeys) (spread s) \<rparr>)))))))"

text \<open>\<^verbatim>\<open>arr.map((s, i) => normalizeSource(s, i))\<close>: the elements in order, each with its
  index; the first exception ends the map.\<close>

fun mapSources :: "nat \<Rightarrow> json list \<Rightarrow> error + Source list" where
  "mapSources i [] = Inr []"
| "mapSources i (s # ss) =
     bind (normalizeSource s i) (\<lambda>r. bind (mapSources (Suc i) ss) (\<lambda>rs. Inr (r # rs)))"

fun normalizeSources :: "json option \<Rightarrow> error + Source list" where
  "normalizeSources (Some (JArr arr)) = mapSources 0 arr"
| "normalizeSources _ = Inr []"

section \<open>The transport client\<close>

subsection \<open>The \<^verbatim>\<open>Response\<close> that \<^verbatim>\<open>fetch\<close> resolves with\<close>

text \<open>
  A response has a status and a body. \<open>bodyText\<close> is the text of the body, \<open>None\<close> for
  a null body; \<open>bodyJson\<close> is what \<^verbatim>\<open>JSON.parse\<close> makes of that text, \<open>None\<close> when it
  is not JSON. The body is a stream that can be read once: \<^verbatim>\<open>json()\<close> and
  \<^verbatim>\<open>text()\<close> both read it to the end, which sets \<open>bodyUsed\<close>, and both reject with a
  \<^verbatim>\<open>TypeError\<close> when the stream has been read before (Fetch standard, "consume body":
  a body is unusable when it is non-null and its stream is disturbed or locked).
  \<^verbatim>\<open>json()\<close> rejects with a \<^verbatim>\<open>SyntaxError\<close> when the bytes read are not JSON, which
  the empty bytes of a null body are not.
\<close>

record Response =
  status :: nat
  bodyText :: "string option"
  bodyJson :: "json option"
  bodyUsed :: bool

definition ok :: "Response \<Rightarrow> bool" where
  "ok res = (200 \<le> status res \<and> status res \<le> 299)"

definition unusable :: "Response \<Rightarrow> bool" where
  "unusable res = (bodyText res \<noteq> None \<and> bodyUsed res)"

definition res_json :: "Response \<Rightarrow> (error + json) \<times> Response" where
  "res_json res =
     (if unusable res then (Inl TypeError, res)
      else case bodyText res of
             None \<Rightarrow> (Inl SyntaxError, res)
           | Some t \<Rightarrow>
               (case bodyJson res of None \<Rightarrow> Inl SyntaxError | Some j \<Rightarrow> Inr j,
                res\<lparr>bodyUsed := True\<rparr>))"

definition res_text :: "Response \<Rightarrow> (error + string) \<times> Response" where
  "res_text res =
     (if unusable res then (Inl TypeError, res)
      else case bodyText res of
             None \<Rightarrow> (Inr [], res)
           | Some t \<Rightarrow> (Inr t, res\<lparr>bodyUsed := True\<rparr>))"

text \<open>A response as \<^verbatim>\<open>fetch\<close> hands it over, not read yet, whose body is JSON text
  for the value \<open>data\<close>.\<close>

definition freshJsonBody :: "Response \<Rightarrow> json \<Rightarrow> bool" where
  "freshJsonBody res data = (bodyText res \<noteq> None \<and> bodyJson res = Some data \<and> \<not> bodyUsed res)"

subsection \<open>\<^verbatim>\<open>parseError\<close>\<close>

text \<open>The \<^verbatim>\<open>try\<close> block once \<^verbatim>\<open>res.json()\<close> has resolved with \<open>j\<close>:
  \<^verbatim>\<open>if (j?.detail) return typeof j.detail === "string" ? j.detail : JSON.stringify(j.detail);
  return JSON.stringify(j)\<close>. Neither branch throws on a parsed value.\<close>

definition detailMessage :: "json \<Rightarrow> string" where
  "detailMessage j =
     (case getProp (Some j) ''detail'' of
        None \<Rightarrow> stringify j
      | Some d \<Rightarrow>
          if truthy (Some d) then (case d of JStr t \<Rightarrow> t | _ \<Rightarrow> stringify d)
          else stringify j)"

text \<open>\<^verbatim>\<open>parseError\<close> never throws; it returns the message and leaves the response in
  the state its reads put it in. The outer \<^verbatim>\<open>catch\<close> calls \<^verbatim>\<open>res.text()\<close> on the
  response that \<^verbatim>\<open>res.json()\<close> has already read.\<close>

definition parseError :: "Response \<Rightarrow> string \<times> Response" where
  "parseError res =
     (case res_json res of
        (Inr j, res1) \<Rightarrow> (detailMessage j, res1)
      | (Inl e, res1) \<Rightarrow>
          (case res_text res1 of
             (Inr t, res2) \<Rightarrow> (t, res2)
           | (Inl e', res2) \<Rightarrow> (''HTTP '' @ show_nat (status res2), res2)))"

subsection \<open>The operations\<close>

text \<open>
  Each operation awaits one \<^verbatim>\<open>fetch\<close>. The request it sends does not enter its result;
  the argument \<open>fetched\<close> is the outcome of the \<^verbatim>\<open>fetch\<close>: the exception it rejected
  with, or the response it resolved with.
\<close>

datatype ChatRole = User | Assistant

fun roleText :: "ChatRole \<Rightarrow> string" where
  "roleText User = ''user''"
| "roleText Assistant = ''assistant''"

datatype Scope = ScopeInternal | ScopeWeb | ScopeHybrid

fun scopeText :: "Scope \<Rightarrow> string" where
  "scopeText ScopeInternal = ''internal''"
| "scopeText ScopeWeb = ''web''"
| "scopeText ScopeHybrid = ''hybrid''"

record ChatHistoryMessage =
  role :: ChatRole
  content :: string

text \<open>The parameter object of \<^verbatim>\<open>askKnowledgeAgent\<close>; \<open>chatSessionId\<close> is \<open>None\<close>
  when it is \<^verbatim>\<open>null\<close> or left out.\<close>

record AskParams =
  question :: string
  scope :: Scope
  agent :: string
  strictCitations :: bool
  history :: "ChatHistoryMessage list"
  chatSessionId :: "string option"

text \<open>The body of the request to \<^verbatim>\<open>/api/chat\<close>. \<^verbatim>\<open>chatSessionId || undefined\<close> is
  \<^verbatim>\<open>undefined\<close> for an empty id too, and \<^verbatim>\<open>JSON.stringify\<close> leaves an undefined
  property out.\<close>

definition chatRequestBody :: "AskParams \<Rightarrow> string" where
  "chatRequestBody params =
     stringify (JObj
       ([(''query'', JStr (question params)),
         (''scope'', JStr (scopeText (scope params))),
         (''agent'', JStr (agent params)),
         (''strict_citations'', JBool (strictCitations params)),
         (''history'',
            JArr (map (\<lambda>m. JObj [(''role'', JStr (roleText (role m))),
                                  (''content'', JStr (content m))])
                      (history params)))]
        @ (case chatSessionId params of
             None \<Rightarrow> []
           | Some sid \<Rightarrow> if sid = [] then [] else [(''chat_session_id'', JStr sid)])))"

record ChatResponse =
  answer :: string
  sources :: "Source list"
  follow_up_questions :: "string list"
  chat_session_id :: "string option"
  chat_session_title :: "string option"

record ChatSession =
  ses_id :: string
  ses_title :: string
  ses_preview :: string
  ses_updated_at :: "string option"

record ChatMessage =
  msg_id :: string
  msg_role :: ChatRole
  msg_content :: string
  msg_created_at :: "string option"

text \<open>\<^verbatim>\<open>xs.map((x: any) => String(x))\<close>.\<close>

fun mapString :: "json list \<Rightarrow> error + string list" where
  "mapString [] = Inr []"
| "mapString (x # xs) =
     bind (jsString (Some x)) (\<lambda>s. bind (mapString xs) (\<lambda>ss. Inr (s # ss)))"

text \<open>\<^verbatim>\<open>v ? String(v) : undefined\<close> and \<^verbatim>\<open>v ? String(v) : null\<close>.\<close>

definition stringIfTruthy :: "json option \<Rightarrow> error + string option" where
  "stringIfTruthy v = (if truthy v then bind (jsString v) (\<lambda>s. Inr (Some s)) else Inr None)"

definition followUps :: "json option \<Rightarrow> error + string list" where
  "followUps data =
     (case getProp data ''follow_up_questions'' of
        Some (JArr xs) \<Rightarrow> mapString xs
      | _ \<Rightarrow>
          (case getProp data ''follow_ups'' of
             Some (JArr ys) \<Rightarrow> mapString ys
           | _ \<Rightarrow> Inr []))"

definition askKnowledgeAgent :: "AskParams \<Rightarrow> error + Response \<Rightarrow> error + ChatResponse" where
  "askKnowledgeAgent params fetched =
     bind fetched (\<lambda>res.
     if \<not> ok res then Inl (Error (fst (parseError res)))
     else
       bind (fst (res_json res)) (\<lambda>j.
       let data = Some j in
       bind (jsString (coalesce (getProp data ''answer'') (Some (JStr [])))) (\<lambda>a.
       bind (normalizeSources (getProp data ''sources'')) (\<lambda>srcs.
       bind (followUps data) (\<lambda>fu.
       bind (stringIfTruthy (getProp data ''chat_session_id'')) (\<lambda>sid.
       bind (stringIfTruthy (getProp data ''chat_session_title'')) (\<lambda>stitle.
       Inr \<lparr> answer = a, sources = srcs, follow_up_questions = fu,
             chat_session_id = sid, chat_session_title = stitle \<rparr>)))))))"

text \<open>The callback of \<^verbatim>\<open>data.map\<close> in \<^verbatim>\<open>listChatSessions\<close>.\<close>

definition toChatSession :: "json \<Rightarrow> error + ChatSession" where
  "toChatSession s =
     bind (jsString (coalesce (getProp (Some s) ''id'') (Some (JStr [])))) (\<lambda>i.
     bind (jsString (coalesce (getProp (Some s) ''title'') (Some (JStr ''New chat'')))) (\<lambda>t.
     bind (jsString (coalesce (getProp (Some s) ''preview'') (Some (JStr [])))) (\<lambda>p.
     bind (stringIfTruthy (getProp (Some s) ''updated_at'')) (\<lambda>u.
     Inr \<lparr> ses_id = i, ses_title = t, ses_preview = p, ses_updated_at = u \<rparr>))))"

fun mapSessions :: "json list \<Rightarrow> error + ChatSession list" where
  "mapSessions [] = Inr []"
| "mapSessions (s # ss) =
     bind (toChatSession s) (\<lambda>r. bind (mapSessions ss) (\<lambda>rs. Inr (r # rs)))"

definition listChatSessions :: "error + Response \<Rightarrow> error + ChatSession list" where
  "listChatSessions fetched =
     bind fetched (\<lambda>res.
     if \<not> ok res then Inl (Error (fst (parseError res)))
     else
       bind (fst (res_json res)) (\<lambda>data.
       case data of JArr xs \<Rightarrow> mapSessions xs | _ \<Rightarrow> Inr []))"

text \<open>The callback of \<^verbatim>\<open>data.map\<close> in \<^verbatim>\<open>getChatSessionMessages\<close>;
  \<^verbatim>\<open>m?.role === "assistant"\<close> is strict equality with the string.\<close>

definition toChatMessage :: "json \<Rightarrow> error + ChatMessage" where
  "toChatMessage m =
     bind (jsString (coalesce (getProp (Some m) ''id'') (Some (JStr [])))) (\<lambda>i.
     let r = (if getProp (Some m) ''role'' = Some (JStr ''assistant'') then Assistant else User) in
     bind (jsString (coalesce (getProp (Some m) ''content'') (Some (JStr [])))) (\<lambda>c.
     bind (stringIfTruthy (getProp (Some m) ''created_at'')) (\<lambda>u.
     Inr \<lparr> msg_id = i, msg_role = r, msg_content = c, msg_created_at = u \<rparr>)))"

fun mapMessages :: "json list \<Rightarrow> error + ChatMessage list" where
  "mapMessages [] = Inr []"
| "mapMessages (m # ms) =
     bind (toChatMessage m) (\<lambda>r. bind (mapMessages ms) (\<lambda>rs. Inr (r # rs)))"

text \<open>The session id only enters the request path.\<close>

definition getChatSessionMessages :: "string \<Rightarrow> error + Response \<Rightarrow> error + ChatMessage list" where
  "getChatSessionMessages sessionId fetched =
     bind fetched (\<lambda>res.
     if \<not> ok res then Inl (Error (fst (parseError res)))
     else
       bind (fst (res_json res)) (\<lambda>data.
       case data of JArr xs \<Rightarrow> mapMessages xs | _ \<Rightarrow> Inr []))"

text \<open>\<^verbatim>\<open>return Array.isArray(data) ? data : (data?.results ?? [])\<close>: the value is
  returned as it is, whatever its shape.\<close>

definition webSearch :: "string \<Rightarrow> int \<Rightarrow> error + Response \<Rightarrow> error + json" where
  "webSearch query numResults fetched =
     bind fetched (\<lambda>res.
     if \<not> ok res then Inl (Error (fst (parseError res)))
     else
       bind (fst (res_json res)) (\<lambda>data.
       if isArray (Some data) then Inr data
       else (case coalesce (getProp (Some data) ''results'') (Some (JArr [])) of
               Some v \<Rightarrow> Inr v
             | None \<Rightarrow> Inr (JArr []))))"

section \<open>Verification\<close>

subsection \<open>Exceptions as values\<close>

lemma bind_Inr [simp]: "bind (Inr a) f = f a" by (simp add: bind_def)
lemma bind_Inl [simp]: "bind (Inl e) f = Inl e" by (simp add: bind_def)

lemma bind_eq_Inr: "bind m f = Inr r \<longleftrightarrow> (\<exists>a. m = Inr a \<and> f a = Inr r)"
  by (cases m) simp_all

subsection \<open>The hash is the specification's hash\<close>

lemma toInt32_wrap32: "toInt32 x = wrap32 x"
  unfolding toInt32_def wrap32_def
  by (simp add: int_word_sint)

lemma hash_step: "toInt32 (shiftLeft h 5 - h + c) = wrap32 (h * 31 + c)"
proof -
  have "(word_of_int (shiftLeft h 5 - h + c) :: 32 word) = word_of_int (h * 31 + c)"
    unfolding shiftLeft_def
    by (simp add: push_bit_eq_mult algebra_simps)
  then show ?thesis
    unfolding toInt32_wrap32[symmetric] toInt32_def by (rule arg_cong)
qed

lemma hashLoop_spec: "hashLoop h cs = hash_spec_loop h cs"
  by (induction cs arbitrary: h) (simp_all add: hash_step)

lemma hashString_spec: "hashString s = hash_spec s"
  by (simp add: hashString_def hash_spec_def hashLoop_spec)

subsection \<open>The fields of a normalized source\<close>

lemma normalizeSource_Inr:
  assumes "normalizeSource s idx = Inr r"
  obtains i t sec so al sn ft where
    "jsString (rawId s) = Inr i" "jsString (rawTitle s) = Inr t"
    "jsString (rawSection s) = Inr sec" "jsString (rawSource s) = Inr so"
    "jsString (rawAccessLevel s) = Inr al" "jsString (rawSnippet s) = Inr sn"
    "jsString (rawFullText s (trim sn)) = Inr ft"
    "r = \<lparr> src_id = (if trim i \<noteq> [] then trim i else syntheticId s idx),
           src_title = trim t, src_section = trim sec, src_source = trim so,
           src_accessLevel = (if toLowerCase al = ''public'' then Public else Internal),
           src_snippet = trim sn, src_fullText = trim ft,
           src_extra = filter (\<lambda>(k, v). k \<notin> set normalizedKeys) (spread s) \<rparr>"
  using assms unfolding normalizeSource_def bind_eq_Inr Let_def by blast

lemma normalizeSource_success:
  assumes "jsString (rawId s) = Inr i" "jsString (rawTitle s) = Inr t"
    "jsString (rawSection s) = Inr sec" "jsString (rawSource s) = Inr so"
    "jsString (rawAccessLevel s) = Inr al" "jsString (rawSnippet s) = Inr sn"
    "jsString (rawFullText s (trim sn)) = Inr ft"
  shows "normalizeSource s idx =
     Inr \<lparr> src_id = (if trim i \<noteq> [] then trim i else syntheticId s idx),
           src_title = trim t, src_section = trim sec, src_source = trim so,
           src_accessLevel = (if toLowerCase al = ''public'' then Public else Internal),
           src_snippet = trim sn, src_fullText = trim ft,
           src_extra = filter (\<lambda>(k, v). k \<notin> set normalizedKeys) (spread s) \<rparr>"
  unfolding normalizeSource_def by (simp add: assms Let_def)

subsection \<open>Trimmed strings\<close>

lemma dropWhile_rev_dropWhile:
  "dropWhile P (rev (dropWhile P (rev (dropWhile P s)))) = rev (dropWhile P (rev (dropWhile P s)))"
proof (cases "dropWhile P s")
  case Nil
  show ?thesis unfolding Nil by simp
next
  case (Cons x xs)
  then have nx: "\<not> P x" using hd_dropWhile[of P s] by (metis list.sel(1) list.distinct(1))
  have "rev (dropWhile P (rev (x # xs))) = x # rev (dropWhile P (rev xs))"
    using nx by (simp add: dropWhile_append)
  then show ?thesis using Cons nx by simp
qed

lemma trimmed_trim: "trimmed (trim s)"
  unfolding trimmed_def trim_def
  by (simp add: dropWhile_rev_dropWhile)

lemma show_nat_digits: "set (show_nat n) \<subseteq> set ''0123456789''"
proof (induction n rule: show_nat.induct)
  case (1 n)
  have d: "\<And>k. k < 10 \<Longrightarrow> ''0123456789'' ! k \<in> set ''0123456789''"
    by (rule nth_mem) simp
  show ?case
  proof (cases "n < 10")
    case True
    then show ?thesis using d[of n] by (subst show_nat.simps) simp
  next
    case False
    have "n mod 10 < 10" by simp
    then show ?thesis using False 1 d[of "n mod 10"] by (subst show_nat.simps) simp
  qed
qed

lemma show_nat_nonempty: "show_nat n \<noteq> []"
  by (subst show_nat.simps) simp

lemma digit_not_ws: "c \<in> set ''0123456789'' \<Longrightarrow> \<not> isWhitespace c"
  by (auto simp: isWhitespace_def)

lemma show_nat_last: "\<not> isWhitespace (last (show_nat n))"
  using show_nat_digits[of n] show_nat_nonempty[of n] digit_not_ws last_in_set by blast

lemma show_int_last: "show_int i \<noteq> [] \<and> \<not> isWhitespace (last (show_int i))"
  using show_nat_last show_nat_nonempty by (simp add: show_int_def)

lemma trimmed_syntheticId: "trimmed (syntheticId s idx)"
proof -
  obtain u where u: "syntheticId s idx = CHR ''s'' # u" by (simp add: syntheticId_def)
  have l: "\<not> isWhitespace (last (syntheticId s idx))"
    using show_int_last by (simp add: syntheticId_def)
  have ne: "syntheticId s idx \<noteq> []" using u by simp
  have "dropWhile isWhitespace (rev (syntheticId s idx)) = rev (syntheticId s idx)"
    using l ne by (cases "syntheticId s idx" rule: rev_cases) simp_all
  moreover have "dropWhile isWhitespace (syntheticId s idx) = syntheticId s idx"
    unfolding u by (simp add: isWhitespace_def)
  ultimately show ?thesis by (simp add: trimmed_def)
qed


lemma dropWhile_self_iff: "dropWhile P s = s \<longleftrightarrow> s = [] \<or> \<not> P (hd s)"
proof (cases s)
  case Nil
  then show ?thesis by simp
next
  case (Cons x xs)
  have "dropWhile P xs \<noteq> x # xs"
  proof
    assume "dropWhile P xs = x # xs"
    then have "length (dropWhile P xs) = Suc (length xs)" by simp
    then show False using length_dropWhile_le[of P xs] by simp
  qed
  then show ?thesis using Cons by simp
qed

text \<open>\<open>trimmed\<close> in words: the string is empty, or neither its first nor its last
  character is whitespace.\<close>

lemma trimmed_iff:
  "trimmed s \<longleftrightarrow> s = [] \<or> (\<not> isWhitespace (hd s) \<and> \<not> isWhitespace (last s))"
  by (auto simp: trimmed_def dropWhile_self_iff hd_rev)

lemma trim_all_whitespace: "\<forall>c\<in>set w. isWhitespace c \<Longrightarrow> trim w = []"
proof -
  assume "\<forall>c\<in>set w. isWhitespace c"
  then have d: "dropWhile isWhitespace w = []" by simp
  show ?thesis unfolding trim_def d by simp
qed

subsection \<open>Unfolding the model on concrete inputs\<close>

text \<open>\<open>show_nat\<close> unfolds on numerals only, so that a number not yet computed is left
  alone.\<close>

lemma show_nat_0: "show_nat 0 = ''0''"
  by (subst show_nat.simps) simp

lemma show_nat_1: "show_nat (Suc 0) = ''1''"
  by (subst show_nat.simps) simp

lemma show_nat_numeral:
  "show_nat (numeral k) =
     (if (numeral k :: nat) < 10 then [''0123456789'' ! numeral k]
      else show_nat (numeral k div 10) @ [''0123456789'' ! (numeral k mod 10)])"
  by (subst show_nat.simps) simp

lemmas show_defs = show_int_def show_nat_0 show_nat_1 show_nat_numeral

lemmas raw_defs = rawId_def rawTitle_def rawSection_def rawSource_def rawAccessLevel_def
  rawSnippet_def rawFullText_def metadata_def

lemmas string_defs = trim_def isWhitespace_def toLowerCase_def lowerChar_def
  char_of_eq_iff take_bit_eq_mod

lemmas stringify_defs = quote_def escapeChar_def hexDigit_def

lemmas hash_defs = hashString_spec hash_spec_def wrap32_def

lemmas source_defs = normalizeSource_def raw_defs string_defs normalizedKeys_def Let_def
  syntheticId_def hash_defs stringify_defs show_defs

section \<open>The claims about the normalizer\<close>

subsection \<open>Access level\<close>

text \<open>The chain of \<^verbatim>\<open>??\<close> for the access level is resolution in order, with the
  default \<open>internal\<close>.\<close>

lemma coalesce_firstPresent:
  "coalesce a (Some (firstPresent xs d)) = Some (firstPresent (a # xs) d)"
  by (cases "(a, Some (firstPresent xs d))" rule: coalesce.cases) simp_all

lemma coalesce_default: "coalesce a (Some d) = Some (firstPresent [a] d)"
  using coalesce_firstPresent [of a "[]" d] by simp

lemma firstPresent_nest: "firstPresent [a] (firstPresent xs d) = firstPresent (a # xs) d"
proof (cases a)
  case None
  then show ?thesis by simp
next
  case (Some v)
  then show ?thesis by (cases v) simp_all
qed

lemma rawAccessLevel_order:
  "rawAccessLevel s =
     Some (firstPresent
       [getProp (Some s) ''accessLevel'', getProp (Some s) ''access_level'',
        getProp (metadata s) ''accessLevel'', getProp (metadata s) ''access_level'']
       (JStr ''internal''))"
  unfolding rawAccessLevel_def
  by (simp only: coalesce_default firstPresent_nest)

text \<open>
  C1 (as amended). Whenever \<open>normalizeSource\<close> returns, the access level is
  \<open>Public\<close> exactly when the string conversion of the raw access-level field, lower-cased,
  is the literal \<open>public\<close>, and \<open>Internal\<close> in every other case. The raw field is the
  first of \<open>accessLevel\<close>, \<open>access_level\<close>, \<open>metadata.accessLevel\<close>,
  \<open>metadata.access_level\<close> that is present and not null, and the string \<open>internal\<close>
  when there is none. Lower-casing comes first, so \<open>PUBLIC\<close> gives \<open>Public\<close>; nothing
  is trimmed, so \<open>Public\<close> followed by a space gives \<open>Internal\<close>.
\<close>

theorem accessLevel_public_iff:
  assumes "normalizeSource s idx = Inr r"
  shows "src_accessLevel r =
    (if map_sum id toLowerCase
          (ToString (firstPresent
             [getProp (Some s) ''accessLevel'', getProp (Some s) ''access_level'',
              getProp (getProp (Some s) ''metadata'') ''accessLevel'',
              getProp (getProp (Some s) ''metadata'') ''access_level'']
             (JStr ''internal''))) = Inr ''public''
     then Public else Internal)"
proof -
  from assms obtain al where al: "jsString (rawAccessLevel s) = Inr al"
    and r: "src_accessLevel r = (if toLowerCase al = ''public'' then Public else Internal)"
    by (elim normalizeSource_Inr) simp
  from al show ?thesis
    unfolding r by (simp add: rawAccessLevel_order metadata_def)
qed

text \<open>The theorem at a source without \<open>accessLevel\<close>, with \<open>access_level\<close>
  \<open>Public\<close> followed by a space, and with \<open>metadata.accessLevel\<close> \<open>public\<close>: the
  second candidate is the raw field, its trailing space survives the lower-casing, and the
  level is \<open>Internal\<close>.\<close>

theorem accessLevel_public_iff_witness:
  "normalizeSource
     (JObj [(''id'', JStr ''a''), (''access_level'', JStr ''Public ''),
            (''metadata'', JObj [(''accessLevel'', JStr ''public'')])]) 0 =
     Inr \<lparr> src_id = ''a'', src_title = ''Source'', src_section = [], src_source = [],
           src_accessLevel = Internal, src_snippet = [], src_fullText = [],
           src_extra = [(''access_level'', JStr ''Public ''),
                        (''metadata'', JObj [(''accessLevel'', JStr ''public'')])] \<rparr>
   \<and> firstPresent
         [None, Some (JStr ''Public ''), Some (JStr ''public''), None] (JStr ''internal'')
       = JStr ''Public ''
   \<and> toLowerCase ''Public '' = ''public ''"
proof -
  let ?s = "JObj [(''id'', JStr ''a''), (''access_level'', JStr ''Public ''),
            (''metadata'', JObj [(''accessLevel'', JStr ''public'')])]"
  let ?r = "\<lparr> src_id = ''a'', src_title = ''Source'', src_section = [], src_source = [],
           src_accessLevel = Internal, src_snippet = [], src_fullText = [],
           src_extra = [(''access_level'', JStr ''Public ''),
                        (''metadata'', JObj [(''accessLevel'', JStr ''public'')])] \<rparr>"
  have h: "normalizeSource ?s 0 = Inr ?r"
    by (simp add: source_defs)
  have l: "toLowerCase ''Public '' = ''public ''"
    by (simp add: string_defs)
  from accessLevel_public_iff [OF h] h l show ?thesis
    by simp
qed

text \<open>The claim as it is written lists \<open>PUBLIC\<close> among the values that give
  \<open>internal\<close>. On \<open>{"id": "a", "accessLevel": "PUBLIC"}\<close> the level is \<open>Public\<close>.\<close>

theorem accessLevel_upper_case_counterexample:
  "normalizeSource (JObj [(''id'', JStr ''a''), (''accessLevel'', JStr ''PUBLIC'')]) 0 =
     Inr \<lparr> src_id = ''a'', src_title = ''Source'', src_section = [], src_source = [],
           src_accessLevel = Public, src_snippet = [], src_fullText = [], src_extra = [] \<rparr>"
  by (simp add: normalizeSource_def raw_defs string_defs normalizedKeys_def Let_def)

subsection \<open>Synthetic ids\<close>

text \<open>
  C3. When the raw source object has no usable explicit id, that is when the string
  conversion of \<open>id\<close> (of the empty string, when \<open>id\<close> is absent or null) is empty after
  trimming, the normalized id is \<open>src-\<close>, the index, \<open>-\<close> and the absolute value of the
  hash of the object's JSON serialization, where the hash is the specification's:
  \<open>h := h * 31 + charCode\<close> with 32-bit signed wrap-around at each step, from 0. The id is
  not empty. It is a function of the index and of the serialization alone, so the same
  input at the same index gives the same id.
\<close>

theorem synthetic_id:
  assumes "normalizeSource (JObj ps) idx = Inr r"
    and "jsString (rawId (JObj ps)) = Inr t" and "trim t = []"
  shows "src_id r =
      ''src-'' @ show_nat idx @ ''-'' @ show_int \<bar>hash_spec (stringify (JObj ps))\<bar>
    \<and> src_id r \<noteq> []"
  using assms by (elim normalizeSource_Inr) (simp add: syntheticId_def hashString_spec)

text \<open>The theorem at \<open>{"id": "  ", "title": " T "}\<close> and index 3, where the hash is
  negative.\<close>

theorem synthetic_id_witness:
  "normalizeSource (JObj [(''id'', JStr ''  ''), (''title'', JStr '' T '')]) 3 =
     Inr \<lparr> src_id = ''src-3-1066043675'', src_title = ''T'', src_section = [],
           src_source = [], src_accessLevel = Internal, src_snippet = [], src_fullText = [],
           src_extra = [] \<rparr>
   \<and> jsString (rawId (JObj [(''id'', JStr ''  ''), (''title'', JStr '' T '')])) = Inr ''  ''
   \<and> trim ''  '' = []
   \<and> hash_spec (stringify (JObj [(''id'', JStr ''  ''), (''title'', JStr '' T '')]))
       = - 1066043675
   \<and> ''src-3-1066043675'' =
       ''src-'' @ show_nat 3 @ ''-'' @
       show_int \<bar>hash_spec (stringify (JObj [(''id'', JStr ''  ''), (''title'', JStr '' T '')]))\<bar>"
proof -
  let ?s = "JObj [(''id'', JStr ''  ''), (''title'', JStr '' T '')]"
  let ?r = "\<lparr> src_id = ''src-3-1066043675'', src_title = ''T'', src_section = [],
           src_source = [], src_accessLevel = Internal, src_snippet = [], src_fullText = [],
           src_extra = [] \<rparr>"
  have hs: "hash_spec (stringify ?s) = - 1066043675"
    by (simp add: hash_spec_def wrap32_def stringify_defs)
  have h: "normalizeSource ?s 3 = Inr ?r"
    by (simp add: source_defs)
  have i: "jsString (rawId ?s) = Inr ''  ''" by (simp add: rawId_def)
  have t: "trim ''  '' = []" by (simp add: trim_def isWhitespace_def)
  from synthetic_id [OF h i t] hs h i t show ?thesis by simp
qed

subsection \<open>Trimmed fields\<close>

text \<open>
  C10. Whenever \<open>normalizeSource\<close> returns, each of the six string fields \<open>id\<close>,
  \<open>title\<close>, \<open>section\<close>, \<open>source\<close>, \<open>snippet\<close> and \<open>fullText\<close> has no leading and no
  trailing whitespace, whatever whitespace the raw field carried. The id is trimmed before
  it is tested for emptiness: a raw id that is a string of whitespace only gets the
  synthetic id.
\<close>

theorem fields_trimmed:
  assumes "normalizeSource s idx = Inr r"
  shows "trimmed (src_id r) \<and> trimmed (src_title r) \<and> trimmed (src_section r) \<and>
    trimmed (src_source r) \<and> trimmed (src_snippet r) \<and> trimmed (src_fullText r) \<and>
    (\<forall>w. getProp (Some s) ''id'' = Some (JStr w) \<and> (\<forall>c\<in>set w. isWhitespace c)
        \<longrightarrow> src_id r = syntheticId s idx)"
proof -
  have ws: "src_id r = syntheticId s idx"
    if "getProp (Some s) ''id'' = Some (JStr w)" "\<forall>c\<in>set w. isWhitespace c" for w
  proof -
    have "jsString (rawId s) = Inr w" using that(1) by (simp add: rawId_def)
    then show ?thesis using assms trim_all_whitespace[OF that(2)]
      by (elim normalizeSource_Inr) simp
  qed
  have "trimmed (src_id r) \<and> trimmed (src_title r) \<and> trimmed (src_section r) \<and>
    trimmed (src_source r) \<and> trimmed (src_snippet r) \<and> trimmed (src_fullText r)"
    using assms by (elim normalizeSource_Inr) (simp add: trimmed_trim trimmed_syntheticId)
  then show ?thesis using ws by blast
qed

text \<open>The theorem at a source whose fields all carry surrounding whitespace and whose id
  is whitespace only, at index 1.\<close>

theorem fields_trimmed_witness:
  "normalizeSource
     (JObj [(''id'', JStr ''  ''), (''title'', JStr '' Rates ''), (''section'', JStr ''  A''),
            (''source'', JStr ''kb/rates.md ''), (''snippet'', JStr '' fixed ''),
            (''fullText'', JStr '' fixed or variable '')]) 1 =
     Inr \<lparr> src_id = ''src-1-1695024245'', src_title = ''Rates'', src_section = ''A'',
           src_source = ''kb/rates.md'', src_accessLevel = Internal, src_snippet = ''fixed'',
           src_fullText = ''fixed or variable'', src_extra = [] \<rparr>
   \<and> trimmed ''src-1-1695024245'' \<and> trimmed ''Rates'' \<and> trimmed ''A''
   \<and> trimmed ''kb/rates.md'' \<and> trimmed ''fixed'' \<and> trimmed ''fixed or variable''
   \<and> ''src-1-1695024245'' =
       syntheticId
         (JObj [(''id'', JStr ''  ''), (''title'', JStr '' Rates ''), (''section'', JStr ''  A''),
            (''source'', JStr ''kb/rates.md ''), (''snippet'', JStr '' fixed ''),
            (''fullText'', JStr '' fixed or variable '')]) 1"
proof -
  let ?s = "JObj [(''id'', JStr ''  ''), (''title'', JStr '' Rates ''), (''section'', JStr ''  A''),
            (''source'', JStr ''kb/rates.md ''), (''snippet'', JStr '' fixed ''),
            (''fullText'', JStr '' fixed or variable '')]"
  let ?r = "\<lparr> src_id = ''src-1-1695024245'', src_title = ''Rates'', src_section = ''A'',
           src_source = ''kb/rates.md'', src_accessLevel = Internal, src_snippet = ''fixed'',
           src_fullText = ''fixed or variable'', src_extra = [] \<rparr>"
  have h: "normalizeSource ?s 1 = Inr ?r"
    by (simp add: source_defs)
  have i: "getProp (Some ?s) ''id'' = Some (JStr ''  '') \<and> (\<forall>c\<in>set ''  ''. isWhitespace c)"
    by (simp add: isWhitespace_def)
  from fields_trimmed [OF h] i have
    "trimmed (src_id ?r) \<and> trimmed (src_title ?r) \<and> trimmed (src_section ?r) \<and>
     trimmed (src_source ?r) \<and> trimmed (src_snippet ?r) \<and> trimmed (src_fullText ?r) \<and>
     src_id ?r = syntheticId ?s 1"
    by blast
  then show ?thesis using h by (simp add: trimmed_syntheticId)
qed

subsection \<open>Canonical fields\<close>

lemma trimmed_trim_id: "trimmed x \<Longrightarrow> trim x = x"
  by (simp add: trimmed_def trim_def)

lemma toLowerCase_public: "toLowerCase ''public'' = ''public''"
  by (simp add: string_defs)

lemma toLowerCase_internal: "toLowerCase ''internal'' = ''internal''"
  by (simp add: string_defs)

text \<open>
  C4 (as amended). For a raw source object that carries all seven canonical fields with
  string values, where the six text fields have no leading or trailing whitespace, the id
  is not empty and \<open>accessLevel\<close> is exactly \<open>public\<close> or \<open>internal\<close>,
  \<open>normalizeSource\<close> returns a source that carries the same seven values, byte for byte.
\<close>

theorem canonical_fields_preserved:
  assumes "getProp (Some s) ''id'' = Some (JStr i)"
    and "getProp (Some s) ''title'' = Some (JStr t)"
    and "getProp (Some s) ''section'' = Some (JStr sec)"
    and "getProp (Some s) ''source'' = Some (JStr so)"
    and "getProp (Some s) ''accessLevel'' = Some (JStr al)"
    and "getProp (Some s) ''snippet'' = Some (JStr sn)"
    and "getProp (Some s) ''fullText'' = Some (JStr ft)"
    and "trimmed i" and "i \<noteq> []" and "trimmed t" and "trimmed sec" and "trimmed so"
    and "trimmed sn" and "trimmed ft"
    and "al = ''public'' \<or> al = ''internal''"
  shows "\<exists>r. normalizeSource s idx = Inr r \<and> src_id r = i \<and> src_title r = t \<and>
    src_section r = sec \<and> src_source r = so \<and> accessLevelText (src_accessLevel r) = al \<and>
    src_snippet r = sn \<and> src_fullText r = ft"
proof -
  have ops: "jsString (rawId s) = Inr i" "jsString (rawTitle s) = Inr t"
    "jsString (rawSection s) = Inr sec" "jsString (rawSource s) = Inr so"
    "jsString (rawAccessLevel s) = Inr al" "jsString (rawSnippet s) = Inr sn"
    "jsString (rawFullText s (trim sn)) = Inr ft"
    using assms(1-7) by (simp_all add: raw_defs)
  have lvl: "accessLevelText (if toLowerCase al = ''public'' then Public else Internal) = al"
    using assms(15) toLowerCase_public toLowerCase_internal by auto
  show ?thesis
    unfolding normalizeSource_success [OF ops]
    using assms(8-14) lvl by (simp add: trimmed_trim_id)
qed

text \<open>The theorem at a fully populated source.\<close>

theorem canonical_fields_preserved_witness:
  "normalizeSource
     (JObj [(''id'', JStr ''kb-7''), (''title'', JStr ''Rates''), (''section'', JStr ''2.1''),
            (''source'', JStr ''kb/rates.md''), (''accessLevel'', JStr ''public''),
            (''snippet'', JStr ''fixed''), (''fullText'', JStr ''fixed or variable'')]) 0 =
     Inr \<lparr> src_id = ''kb-7'', src_title = ''Rates'', src_section = ''2.1'',
           src_source = ''kb/rates.md'', src_accessLevel = Public, src_snippet = ''fixed'',
           src_fullText = ''fixed or variable'', src_extra = [] \<rparr>
   \<and> accessLevelText Public = ''public''
   \<and> trimmed ''kb-7'' \<and> trimmed ''Rates'' \<and> trimmed ''2.1'' \<and> trimmed ''kb/rates.md''
   \<and> trimmed ''fixed'' \<and> trimmed ''fixed or variable''"
proof -
  let ?s = "JObj [(''id'', JStr ''kb-7''), (''title'', JStr ''Rates''), (''section'', JStr ''2.1''),
            (''source'', JStr ''kb/rates.md''), (''accessLevel'', JStr ''public''),
            (''snippet'', JStr ''fixed''), (''fullText'', JStr ''fixed or variable'')]"
  have tr: "trimmed ''kb-7''" "trimmed ''Rates''" "trimmed ''2.1''" "trimmed ''kb/rates.md''"
    "trimmed ''fixed''" "trimmed ''fixed or variable''"
    by (simp_all add: trimmed_def isWhitespace_def)
  have "\<exists>r. normalizeSource ?s 0 = Inr r \<and> src_id r = ''kb-7'' \<and> src_title r = ''Rates'' \<and>
    src_section r = ''2.1'' \<and> src_source r = ''kb/rates.md'' \<and>
    accessLevelText (src_accessLevel r) = ''public'' \<and>
    src_snippet r = ''fixed'' \<and> src_fullText r = ''fixed or variable''"
    by (rule canonical_fields_preserved) (simp_all add: tr)
  moreover have "normalizeSource ?s 0 =
     Inr \<lparr> src_id = ''kb-7'', src_title = ''Rates'', src_section = ''2.1'',
           src_source = ''kb/rates.md'', src_accessLevel = Public, src_snippet = ''fixed'',
           src_fullText = ''fixed or variable'', src_extra = [] \<rparr>"
    by (simp add: source_defs)
  ultimately show ?thesis using tr by simp
qed

text \<open>The claim as it is written covers every string value. With a leading space in the
  raw title, the normalized title has lost it.\<close>

theorem canonical_fields_counterexample:
  "normalizeSource
     (JObj [(''id'', JStr ''kb-7''), (''title'', JStr '' Rates''), (''section'', JStr ''2.1''),
            (''source'', JStr ''kb/rates.md''), (''accessLevel'', JStr ''public''),
            (''snippet'', JStr ''fixed''), (''fullText'', JStr ''fixed or variable'')]) 0 =
     Inr \<lparr> src_id = ''kb-7'', src_title = ''Rates'', src_section = ''2.1'',
           src_source = ''kb/rates.md'', src_accessLevel = Public, src_snippet = ''fixed'',
           src_fullText = ''fixed or variable'', src_extra = [] \<rparr>
   \<and> ''Rates'' \<noteq> '' Rates''"
  by (simp add: source_defs)

subsection \<open>Inputs on which the normalizer raises\<close>

lemma ToString_convertible:
  "(\<exists>t. ToString v = Inr t) \<longleftrightarrow> convertible v"
  "(\<exists>ts. jsElems xs = Inr ts) \<longleftrightarrow> list_all convertible xs"
proof (induction v and xs rule: ToString_jsElems.induct)
  case (5 xs)
  then show ?case by (auto simp: bind_eq_Inr)
next
  case (8 x xs)
  then show ?case by (cases "x = JNull") (auto simp: bind_eq_Inr)
qed simp_all

lemma jsString_converts: "(\<exists>t. jsString x = Inr t) \<longleftrightarrow> converts x"
  by (cases x) (simp_all add: converts_def ToString_convertible)

lemma converts_coalesce:
  "converts (coalesce a b) =
     (if a = None \<or> a = Some JNull then converts b else converts a)"
  by (cases "(a, b)" rule: coalesce.cases) (simp_all add: converts_def)

lemma converts_rawFullText: "converts (rawFullText s a) = converts (rawFullText s b)"
  by (simp add: rawFullText_def converts_coalesce) (simp add: converts_def)

text \<open>\<open>normalizeSource\<close> returns exactly when the seven operands of its
  \<^verbatim>\<open>String\<close> calls convert; the only exception it raises is the \<^verbatim>\<open>TypeError\<close>
  of a failed conversion.\<close>

lemma normalizeSource_returns_iff:
  "(\<exists>r. normalizeSource s idx = Inr r) \<longleftrightarrow>
     converts (rawId s) \<and> converts (rawTitle s) \<and> converts (rawSection s) \<and>
     converts (rawSource s) \<and> converts (rawAccessLevel s) \<and> converts (rawSnippet s) \<and>
     converts (rawFullText s [])"
proof
  assume "\<exists>r. normalizeSource s idx = Inr r"
  then obtain r where "normalizeSource s idx = Inr r" ..
  then show "converts (rawId s) \<and> converts (rawTitle s) \<and> converts (rawSection s) \<and>
     converts (rawSource s) \<and> converts (rawAccessLevel s) \<and> converts (rawSnippet s) \<and>
     converts (rawFullText s [])"
    by (elim normalizeSource_Inr)
      (metis jsString_converts converts_rawFullText)
next
  assume c: "converts (rawId s) \<and> converts (rawTitle s) \<and> converts (rawSection s) \<and>
     converts (rawSource s) \<and> converts (rawAccessLevel s) \<and> converts (rawSnippet s) \<and>
     converts (rawFullText s [])"
  then obtain i t sec so al sn where ops:
    "jsString (rawId s) = Inr i" "jsString (rawTitle s) = Inr t"
    "jsString (rawSection s) = Inr sec" "jsString (rawSource s) = Inr so"
    "jsString (rawAccessLevel s) = Inr al" "jsString (rawSnippet s) = Inr sn"
    using jsString_converts by metis
  from c have "converts (rawFullText s (trim sn))" using converts_rawFullText by blast
  then obtain ft where ft: "jsString (rawFullText s (trim sn)) = Inr ft"
    using jsString_converts by blast
  show "\<exists>r. normalizeSource s idx = Inr r"
    using normalizeSource_success [OF ops ft] by blast
qed

lemma ToString_error:
  "ToString v = Inl e \<Longrightarrow> e = TypeError"
  "jsElems xs = Inl e \<Longrightarrow> e = TypeError"
proof (induction v and xs arbitrary: e and e rule: ToString_jsElems.induct)
  case (5 xs)
  then show ?case by (cases "jsElems xs") simp_all
next
  case (8 x xs)
  then show ?case
    by (cases "x = JNull"; cases "ToString x"; cases "jsElems xs") (simp_all)
qed (simp_all split: if_splits)

lemma jsString_error: "jsString x = Inl e \<Longrightarrow> e = TypeError"
  by (cases x) (simp_all add: ToString_error)

lemma normalizeSource_error: "normalizeSource s idx = Inl e \<Longrightarrow> e = TypeError"
  unfolding normalizeSource_def bind_def Let_def
  by (auto split: sum.splits dest: jsString_error)

text \<open>
  C2. The claim has \<open>normalizeSource\<close> return for every JSON value. It raises a
  \<^verbatim>\<open>TypeError\<close> on \<open>{"title": {"toString": 1}}\<close>: the title is an object whose own
  property \<open>toString\<close> is not callable, and \<^verbatim>\<open>String\<close> finds no primitive for it.
  \<open>normalizeSources\<close> raises on the array that holds this object.
\<close>

theorem toString_property_raises:
  "normalizeSource (JObj [(''title'', JObj [(''toString'', JNum 1)])]) 0 = Inl TypeError
   \<and> normalizeSources (Some (JArr [JObj [(''title'', JObj [(''toString'', JNum 1)])]]))
       = Inl TypeError"
  by (simp add: normalizeSource_def raw_defs Let_def)

text \<open>The example of the claim: \<open>normalizeSources([{}])\<close> is one entry with the default
  fields and the synthetic id of \<open>{}\<close> at index 0.\<close>

theorem normalizeSources_empty_object:
  "normalizeSources (Some (JArr [JObj []])) =
     Inr [\<lparr> src_id = ''src-0-3938'', src_title = ''Source'', src_section = [],
            src_source = [], src_accessLevel = Internal, src_snippet = [], src_fullText = [],
            src_extra = [] \<rparr>]"
  by (simp add: source_defs)

section \<open>The claims about the transport client\<close>

subsection \<open>Reading a response\<close>

lemma res_json_fresh: "freshJsonBody res data \<Longrightarrow> fst (res_json res) = Inr data"
  by (auto simp: freshJsonBody_def res_json_def unusable_def)

lemma parseError_fresh: "freshJsonBody res data \<Longrightarrow> fst (parseError res) = detailMessage data"
  by (auto simp: freshJsonBody_def parseError_def res_json_def unusable_def)

lemma parseError_not_json:
  assumes "bodyText res = Some t" and "bodyJson res = None" and "\<not> bodyUsed res"
  shows "fst (parseError res) = ''HTTP '' @ show_nat (status res)"
  using assms by (simp add: parseError_def res_json_def res_text_def unusable_def)

lemma mapString_strings: "mapString (map JStr ss) = Inr ss"
  by (induction ss) simp_all

text \<open>\<open>mapString\<close> is \<^verbatim>\<open>String\<close> on each element, in order.\<close>

lemma mapString_nth:
  assumes "mapString xs = Inr ss"
  shows "length ss = length xs \<and> (\<forall>i<length xs. ToString (xs ! i) = Inr (ss ! i))"
  using assms
proof (induction xs arbitrary: ss)
  case Nil
  then show ?case by simp
next
  case (Cons x xs)
  from Cons.prems obtain s ss' where
    s: "ToString x = Inr s" and ss': "mapString xs = Inr ss'" and ss: "ss = s # ss'"
    by (auto simp: bind_eq_Inr)
  from Cons.IH [OF ss'] show ?case
    using s ss by (auto simp: nth_Cons split: nat.splits)
qed

lemma res_json_Inr: "fst (res_json res) = Inr j \<Longrightarrow> bodyJson res = Some j"
  by (auto simp: res_json_def split: if_splits option.splits)

lemma toChatMessage_role:
  assumes "toChatMessage m = Inr r"
  shows "msg_role r =
    (if getProp (Some m) ''role'' = Some (JStr ''assistant'') then Assistant else User)"
  using assms unfolding toChatMessage_def bind_eq_Inr Let_def by auto

lemma mapMessages_nth:
  assumes "mapMessages ms = Inr msgs"
  shows "length msgs = length ms \<and> (\<forall>i<length ms. toChatMessage (ms ! i) = Inr (msgs ! i))"
  using assms
proof (induction ms arbitrary: msgs)
  case Nil
  then show ?case by simp
next
  case (Cons m ms)
  from Cons.prems obtain r rs where
    r: "toChatMessage m = Inr r" and rs: "mapMessages ms = Inr rs" and msgs: "msgs = r # rs"
    by (auto simp: bind_eq_Inr)
  from Cons.IH [OF rs] show ?case
    using r msgs by (auto simp: nth_Cons split: nat.splits)
qed

subsection \<open>Bodies that are not arrays\<close>

text \<open>
  C7 (as amended). \<open>normalizeSources\<close> returns the empty sequence for every input that
  is not an array, \<^verbatim>\<open>undefined\<close> included. \<open>listChatSessions\<close> and
  \<open>getChatSessionMessages\<close> return the empty sequence, and raise nothing, whenever the
  body of the success response that \<^verbatim>\<open>fetch\<close> delivers is JSON text for a value that
  is not an array.
\<close>

theorem non_array_gives_empty:
  "(\<not> isArray raw \<longrightarrow> normalizeSources raw = Inr []) \<and>
   (ok res \<and> freshJsonBody res data \<and> \<not> isArray (Some data) \<longrightarrow>
      listChatSessions (Inr res) = Inr [] \<and>
      getChatSessionMessages sessionId (Inr res) = Inr [])"
proof -
  have a: "normalizeSources raw = Inr []" if "\<not> isArray raw"
    using that by (cases raw rule: isArray.cases) simp_all
  have b: "listChatSessions (Inr res) = Inr [] \<and>
      getChatSessionMessages sessionId (Inr res) = Inr []"
    if "ok res" "freshJsonBody res data" "\<not> isArray (Some data)"
    using that res_json_fresh [OF that(2)]
    by (cases data) (simp_all add: listChatSessions_def getChatSessionMessages_def)
  show ?thesis using a b by blast
qed

text \<open>The theorem at \<^verbatim>\<open>undefined\<close>, \<^verbatim>\<open>null\<close> and \<open>{}\<close>, and at a response with
  status 200 whose body is the object \<open>{"sessions": []}\<close>.\<close>

theorem non_array_gives_empty_witness:
  "normalizeSources None = Inr [] \<and> normalizeSources (Some JNull) = Inr [] \<and>
   normalizeSources (Some (JObj [])) = Inr [] \<and>
   listChatSessions
     (Inr \<lparr> status = 200, bodyText = Some (stringify (JObj [(''sessions'', JArr [])])),
            bodyJson = Some (JObj [(''sessions'', JArr [])]), bodyUsed = False \<rparr>) = Inr [] \<and>
   getChatSessionMessages ''s1''
     (Inr \<lparr> status = 200, bodyText = Some (stringify (JObj [(''sessions'', JArr [])])),
            bodyJson = Some (JObj [(''sessions'', JArr [])]), bodyUsed = False \<rparr>) = Inr []"
proof -
  let ?d = "JObj [(''sessions'', JArr [])]"
  let ?res = "\<lparr> status = 200, bodyText = Some (stringify ?d), bodyJson = Some ?d,
                bodyUsed = False \<rparr>"
  have h: "ok ?res \<and> freshJsonBody ?res ?d \<and> \<not> isArray (Some ?d)"
    by (simp add: ok_def freshJsonBody_def)
  from non_array_gives_empty [of None ?res ?d "''s1''"]
    non_array_gives_empty [of "Some JNull" ?res ?d "''s1''"]
    non_array_gives_empty [of "Some (JObj [])" ?res ?d "''s1''"] h
  show ?thesis by simp
qed

text \<open>The claim as it is written covers every success response whose body is not an
  array. When the body is not JSON at all, here the text \<open>OK\<close> with status 200,
  \<^verbatim>\<open>res.json()\<close> rejects and both operations raise the \<^verbatim>\<open>SyntaxError\<close>.\<close>

theorem non_json_body_raises_counterexample:
  "listChatSessions
     (Inr \<lparr> status = 200, bodyText = Some ''OK'', bodyJson = None, bodyUsed = False \<rparr>)
     = Inl SyntaxError \<and>
   getChatSessionMessages ''s1''
     (Inr \<lparr> status = 200, bodyText = Some ''OK'', bodyJson = None, bodyUsed = False \<rparr>)
     = Inl SyntaxError"
  by (simp add: listChatSessions_def getChatSessionMessages_def ok_def res_json_def
      unusable_def)

subsection \<open>Roles\<close>

text \<open>
  C9. In the transcript that \<open>getChatSessionMessages\<close> returns for a success response
  whose body is an array, there is one entry for each raw entry, in order, and its role is
  \<open>Assistant\<close> exactly when the raw \<open>role\<close> is the string \<open>assistant\<close>, letter for
  letter; with any other value, or none, it is \<open>User\<close>.
\<close>

theorem role_assistant_iff:
  assumes "ok res" and "freshJsonBody res (JArr ms)"
    and "getChatSessionMessages sessionId (Inr res) = Inr msgs"
  shows "length msgs = length ms \<and>
    (\<forall>i<length ms. msg_role (msgs ! i) =
       (if getProp (Some (ms ! i)) ''role'' = Some (JStr ''assistant'')
        then Assistant else User))"
proof -
  have "mapMessages ms = Inr msgs"
    using assms res_json_fresh [OF assms(2)] by (simp add: getChatSessionMessages_def)
  then show ?thesis
    using mapMessages_nth toChatMessage_role by blast
qed

text \<open>The theorem at a transcript of two entries, the first with the role \<open>Assistant\<close>
  in the wrong case.\<close>

theorem role_assistant_iff_witness:
  "getChatSessionMessages ''s1''
     (Inr \<lparr> status = 200,
            bodyText = Some (stringify (JArr
              [JObj [(''id'', JNum 1), (''role'', JStr ''Assistant''), (''content'', JStr ''hi'')],
               JObj [(''id'', JNum 2), (''role'', JStr ''assistant''), (''content'', JStr ''yes'')]])),
            bodyJson = Some (JArr
              [JObj [(''id'', JNum 1), (''role'', JStr ''Assistant''), (''content'', JStr ''hi'')],
               JObj [(''id'', JNum 2), (''role'', JStr ''assistant''), (''content'', JStr ''yes'')]]),
            bodyUsed = False \<rparr>) =
     Inr [\<lparr> msg_id = ''1'', msg_role = User, msg_content = ''hi'', msg_created_at = None \<rparr>,
          \<lparr> msg_id = ''2'', msg_role = Assistant, msg_content = ''yes'', msg_created_at = None \<rparr>]
   \<and> getProp (Some (JObj [(''id'', JNum 1), (''role'', JStr ''Assistant''), (''content'', JStr ''hi'')]))
        ''role'' = Some (JStr ''Assistant'')"
proof -
  let ?ms = "[JObj [(''id'', JNum 1), (''role'', JStr ''Assistant''), (''content'', JStr ''hi'')],
              JObj [(''id'', JNum 2), (''role'', JStr ''assistant''), (''content'', JStr ''yes'')]]"
  let ?res = "\<lparr> status = 200, bodyText = Some (stringify (JArr ?ms)),
                bodyJson = Some (JArr ?ms), bodyUsed = False \<rparr>"
  let ?msgs = "[\<lparr> msg_id = ''1'', msg_role = User, msg_content = ''hi'', msg_created_at = None \<rparr>,
          \<lparr> msg_id = ''2'', msg_role = Assistant, msg_content = ''yes'', msg_created_at = None \<rparr>]"
  have o: "ok ?res" by (simp add: ok_def)
  have f: "freshJsonBody ?res (JArr ?ms)" by (simp add: freshJsonBody_def)
  have g: "getChatSessionMessages ''s1'' (Inr ?res) = Inr ?msgs"
    by (simp add: getChatSessionMessages_def ok_def res_json_def unusable_def
        toChatMessage_def stringIfTruthy_def show_defs Let_def)
  from role_assistant_iff [OF o f g] g show ?thesis by simp
qed

subsection \<open>Follow-up questions\<close>

text \<open>
  C8. In the result that \<open>askKnowledgeAgent\<close> returns for a response with the parsed
  body \<open>data\<close>, \<open>follow_up_questions\<close> is the sequence under the key
  \<open>follow_up_questions\<close> of the body, element by element, each element converted by
  \<^verbatim>\<open>String\<close>; when that key is absent it is the sequence under the alternate key
  \<open>follow_ups\<close>, converted the same way; and it is empty when neither key is present.
\<close>

theorem follow_up_questions_resolution:
  assumes "askKnowledgeAgent params (Inr res) = Inr r" and "bodyJson res = Some data"
  shows
    "(\<forall>xs. getProp (Some data) ''follow_up_questions'' = Some (JArr xs)
        \<longrightarrow> length (follow_up_questions r) = length xs \<and>
            (\<forall>i<length xs. ToString (xs ! i) = Inr (follow_up_questions r ! i))) \<and>
     (\<forall>ys. getProp (Some data) ''follow_up_questions'' = None \<and>
           getProp (Some data) ''follow_ups'' = Some (JArr ys)
        \<longrightarrow> length (follow_up_questions r) = length ys \<and>
            (\<forall>i<length ys. ToString (ys ! i) = Inr (follow_up_questions r ! i))) \<and>
     (getProp (Some data) ''follow_up_questions'' = None \<and>
      getProp (Some data) ''follow_ups'' = None
        \<longrightarrow> follow_up_questions r = [])"
proof -
  from assms(1) obtain j where j: "fst (res_json res) = Inr j"
    and f: "followUps (Some j) = Inr (follow_up_questions r)"
    unfolding askKnowledgeAgent_def
    by (auto simp: bind_eq_Inr Let_def split: if_splits)
  from res_json_Inr [OF j] assms(2) have "j = data" by simp
  with f have fu: "followUps (Some data) = Inr (follow_up_questions r)" by simp
  have 1: "length (follow_up_questions r) = length xs \<and>
      (\<forall>i<length xs. ToString (xs ! i) = Inr (follow_up_questions r ! i))"
    if "getProp (Some data) ''follow_up_questions'' = Some (JArr xs)" for xs
  proof -
    have "mapString xs = Inr (follow_up_questions r)"
      using fu that by (simp add: followUps_def)
    then show ?thesis by (rule mapString_nth)
  qed
  have 2: "length (follow_up_questions r) = length ys \<and>
      (\<forall>i<length ys. ToString (ys ! i) = Inr (follow_up_questions r ! i))"
    if "getProp (Some data) ''follow_up_questions'' = None"
      and "getProp (Some data) ''follow_ups'' = Some (JArr ys)" for ys
  proof -
    have "mapString ys = Inr (follow_up_questions r)"
      using fu that by (simp add: followUps_def)
    then show ?thesis by (rule mapString_nth)
  qed
  have 3: "follow_up_questions r = []"
    if "getProp (Some data) ''follow_up_questions'' = None"
      and "getProp (Some data) ''follow_ups'' = None"
    using fu that by (simp add: followUps_def)
  show ?thesis using 1 2 3 by blast
qed

text \<open>The theorem at the success response with the body
  \<open>{"answer": "X", "sources": [], "follow_ups": ["A", "B"]}\<close>, which uses the alternate
  key: \<open>follow_up_questions\<close> is \<open>["A", "B"]\<close>, the two elements converted in order.\<close>

theorem follow_up_questions_resolution_witness:
  "askKnowledgeAgent
     \<lparr> question = ''rates?'', scope = ScopeInternal, agent = ''knowledge'',
       strictCitations = True, history = [], chatSessionId = None \<rparr>
     (Inr \<lparr> status = 200,
            bodyText = Some (stringify (JObj [(''answer'', JStr ''X''), (''sources'', JArr []),
                              (''follow_ups'', JArr [JStr ''A'', JStr ''B''])])),
            bodyJson = Some (JObj [(''answer'', JStr ''X''), (''sources'', JArr []),
                              (''follow_ups'', JArr [JStr ''A'', JStr ''B''])]),
            bodyUsed = False \<rparr>) =
     Inr \<lparr> answer = ''X'', sources = [], follow_up_questions = [''A'', ''B''],
           chat_session_id = None, chat_session_title = None \<rparr>
   \<and> length [''A'', ''B''] = length [JStr ''A'', JStr ''B'']
   \<and> ToString ([JStr ''A'', JStr ''B''] ! 0) = Inr ([''A'', ''B''] ! 0)
   \<and> ToString ([JStr ''A'', JStr ''B''] ! 1) = Inr ([''A'', ''B''] ! 1)"
proof -
  let ?d = "JObj [(''answer'', JStr ''X''), (''sources'', JArr []),
                  (''follow_ups'', JArr [JStr ''A'', JStr ''B''])]"
  let ?res = "\<lparr> status = 200, bodyText = Some (stringify ?d), bodyJson = Some ?d,
                bodyUsed = False \<rparr>"
  let ?r = "\<lparr> answer = ''X'', sources = [], follow_up_questions = [''A'', ''B''],
              chat_session_id = None, chat_session_title = None \<rparr>"
  let ?p = "\<lparr> question = ''rates?'', scope = ScopeInternal, agent = ''knowledge'',
              strictCitations = True, history = [], chatSessionId = None \<rparr>"
  have a: "askKnowledgeAgent ?p (Inr ?res) = Inr ?r"
    by (simp add: askKnowledgeAgent_def ok_def res_json_def unusable_def followUps_def
        stringIfTruthy_def Let_def)
  have b: "bodyJson ?res = Some ?d" by simp
  have k: "getProp (Some ?d) ''follow_up_questions'' = None \<and>
    getProp (Some ?d) ''follow_ups'' = Some (JArr [JStr ''A'', JStr ''B''])"
    by simp
  from follow_up_questions_resolution [OF a b] k
  have e: "length (follow_up_questions ?r) = length [JStr ''A'', JStr ''B''] \<and>
    (\<forall>i<length [JStr ''A'', JStr ''B''].
        ToString ([JStr ''A'', JStr ''B''] ! i) = Inr (follow_up_questions ?r ! i))"
    by blast
  from e have "ToString ([JStr ''A'', JStr ''B''] ! 0) = Inr (follow_up_questions ?r ! 0)"
    by simp
  moreover from e
  have "ToString ([JStr ''A'', JStr ''B''] ! 1) = Inr (follow_up_questions ?r ! 1)"
    by simp
  ultimately show ?thesis using a e by simp
qed

subsection \<open>Web search\<close>

text \<open>
  C6 (as amended). On the success response that \<^verbatim>\<open>fetch\<close> delivers, when its body
  is JSON text for the value \<open>data\<close>, \<open>webSearch\<close> returns the body itself when it is an
  array; the \<open>results\<close> field of the body when the body is an object that carries one and
  the field is not null; and the empty sequence for every other JSON body, an object whose
  \<open>results\<close> field is null included.
\<close>

theorem webSearch_result:
  assumes "ok res" and "freshJsonBody res data"
  shows
    "(isArray (Some data) \<longrightarrow> webSearch query numResults (Inr res) = Inr data) \<and>
     (\<forall>v. \<not> isArray (Some data) \<and> getProp (Some data) ''results'' = Some v \<and> v \<noteq> JNull
        \<longrightarrow> webSearch query numResults (Inr res) = Inr v) \<and>
     (\<not> isArray (Some data) \<and>
      (getProp (Some data) ''results'' = None \<or> getProp (Some data) ''results'' = Some JNull)
        \<longrightarrow> webSearch query numResults (Inr res) = Inr (JArr []))"
proof -
  have w: "webSearch query numResults (Inr res) =
    (if isArray (Some data) then Inr data
     else (case coalesce (getProp (Some data) ''results'') (Some (JArr [])) of
             Some v \<Rightarrow> Inr v | None \<Rightarrow> Inr (JArr [])))"
    using assms res_json_fresh [OF assms(2)] by (simp add: webSearch_def)
  have c: "coalesce (Some v) b = Some v" if "v \<noteq> JNull" for v b
    using that by (cases v) simp_all
  show ?thesis unfolding w by (auto simp: c)
qed

text \<open>The theorem at the three shapes of body: a bare array, an object with a
  \<open>results\<close> array, and a string.\<close>

theorem webSearch_result_witness:
  "webSearch ''rates'' 5
     (Inr \<lparr> status = 200, bodyText = Some (stringify (JArr [JObj [(''title'', JStr ''T'')]])),
            bodyJson = Some (JArr [JObj [(''title'', JStr ''T'')]]), bodyUsed = False \<rparr>)
     = Inr (JArr [JObj [(''title'', JStr ''T'')]]) \<and>
   webSearch ''rates'' 5
     (Inr \<lparr> status = 200,
            bodyText = Some (stringify (JObj [(''results'', JArr [JObj [(''title'', JStr ''T'')]])])),
            bodyJson = Some (JObj [(''results'', JArr [JObj [(''title'', JStr ''T'')]])]),
            bodyUsed = False \<rparr>)
     = Inr (JArr [JObj [(''title'', JStr ''T'')]]) \<and>
   webSearch ''rates'' 5
     (Inr \<lparr> status = 200, bodyText = Some (stringify (JStr ''none'')),
            bodyJson = Some (JStr ''none''), bodyUsed = False \<rparr>)
     = Inr (JArr [])"
proof -
  let ?a = "JArr [JObj [(''title'', JStr ''T'')]]"
  let ?o = "JObj [(''results'', ?a)]"
  let ?s = "JStr ''none''"
  let ?res = "\<lambda>d. \<lparr> status = 200, bodyText = Some (stringify d), bodyJson = Some d,
                bodyUsed = False \<rparr>"
  have o: "ok (?res d)" for d by (simp add: ok_def)
  have f: "freshJsonBody (?res d) d" for d by (simp add: freshJsonBody_def)
  have 1: "webSearch ''rates'' 5 (Inr (?res ?a)) = Inr ?a"
    using webSearch_result [OF o f, of ?a "''rates''" 5] by simp
  have 2: "webSearch ''rates'' 5 (Inr (?res ?o)) = Inr ?a"
    using webSearch_result [OF o f, of ?o "''rates''" 5] by simp
  have 3: "webSearch ''rates'' 5 (Inr (?res ?s)) = Inr (JArr [])"
    using webSearch_result [OF o f, of ?s "''rates''" 5] by simp
  from 1 2 3 show ?thesis by simp
qed

text \<open>The claim as it is written returns the \<open>results\<close> field whenever the body is an
  object that carries one, and the empty sequence for every other body. On the body
  \<open>{"results": null}\<close> the field is null and the result is the empty sequence; on a body
  that is not JSON, here the text \<open>OK\<close>, \<^verbatim>\<open>res.json()\<close> rejects and \<open>webSearch\<close>
  raises the \<^verbatim>\<open>SyntaxError\<close>.\<close>

theorem webSearch_null_results_counterexample:
  "webSearch ''rates'' 5
     (Inr \<lparr> status = 200, bodyText = Some (stringify (JObj [(''results'', JNull)])),
            bodyJson = Some (JObj [(''results'', JNull)]), bodyUsed = False \<rparr>)
     = Inr (JArr []) \<and>
   getProp (Some (JObj [(''results'', JNull)])) ''results'' = Some JNull \<and>
   JArr [] \<noteq> JNull \<and>
   webSearch ''rates'' 5
     (Inr \<lparr> status = 200, bodyText = Some ''OK'', bodyJson = None, bodyUsed = False \<rparr>)
     = Inl SyntaxError"
  by (simp add: webSearch_def ok_def res_json_def unusable_def)

subsection \<open>Error messages\<close>

text \<open>
  C5. The claim holds for a body that is JSON (\<open>parseError_fresh\<close>): the message is the
  \<open>detail\<close> field, or the serialization of the body. It fails at the third step: for a
  body that is not JSON the claim gives the raw text, and the code gives the status
  message, because \<^verbatim>\<open>res.json()\<close> has read the body before \<^verbatim>\<open>res.text()\<close> is
  called, so \<^verbatim>\<open>res.text()\<close> rejects. At status 500 with the body \<open>oops\<close> the
  message is \<open>HTTP 500\<close>, in \<open>parseError\<close> and in the error that \<open>askKnowledgeAgent\<close>
  raises.
\<close>

theorem parseError_raw_text_lost:
  "parseError \<lparr> status = 500, bodyText = Some ''oops'', bodyJson = None, bodyUsed = False \<rparr> =
     (''HTTP 500'',
      \<lparr> status = 500, bodyText = Some ''oops'', bodyJson = None, bodyUsed = True \<rparr>) \<and>
   askKnowledgeAgent params
     (Inr \<lparr> status = 500, bodyText = Some ''oops'', bodyJson = None, bodyUsed = False \<rparr>) =
     Inl (Error ''HTTP 500'')"
  by (simp add: askKnowledgeAgent_def ok_def parseError_def res_json_def res_text_def
      unusable_def show_defs)

text \<open>The first step of the chain, at status 400 with the body
  \<open>{"detail": "bad scope"}\<close>: the message is \<open>bad scope\<close>.\<close>

theorem parseError_detail_example:
  "askKnowledgeAgent params
     (Inr \<lparr> status = 400,
            bodyText = Some (stringify (JObj [(''detail'', JStr ''bad scope'')])),
            bodyJson = Some (JObj [(''detail'', JStr ''bad scope'')]), bodyUsed = False \<rparr>) =
     Inl (Error ''bad scope'')"
  by (simp add: askKnowledgeAgent_def ok_def parseError_def res_json_def unusable_def
      detailMessage_def)

end
